theory Spec2Isabelle
  imports Complex_Main
begin

section \<open>JavaScript values used by the plugin\<close>

text \<open>
  The plugin reads string properties of plain objects that may be absent. A property
  that holds a string or is \<^verbatim>\<open>undefined\<close> is a \<open>string option\<close>; \<open>None\<close> is
  \<^verbatim>\<open>undefined\<close>. Strings are byte strings.
\<close>

type_synonym jsstr = "string option"

text \<open>Truthiness of a string-or-undefined value: \<^verbatim>\<open>!v\<close> holds for undefined and for the empty string.\<close>

definition falsy :: "jsstr \<Rightarrow> bool" where
  "falsy v = (case v of None \<Rightarrow> True | Some s \<Rightarrow> s = [])"

text \<open>A value inside a template literal: \<^verbatim>\<open>`${v}`\<close>.\<close>

definition template :: "jsstr \<Rightarrow> string" where
  "template v = (case v of None \<Rightarrow> ''undefined'' | Some s \<Rightarrow> s)"

text \<open>
  \<^verbatim>\<open>String.prototype.toLowerCase\<close> belongs to the JavaScript runtime and follows the
  Unicode case mappings. Every function of the plugin that calls it takes it as its first
  argument, named \<open>toLowerCase\<close>, and the theorems hold for every such function. On a
  string of ASCII characters the runtime's function lower-cases the letters A to Z and keeps
  every other character; \<open>toLowerCase_ascii\<close> is that function, used where an operation is
  run on concrete ASCII strings.
\<close>

definition toLowerCase_char :: "char \<Rightarrow> char" where
  "toLowerCase_char c =
     (case map_of (zip ''ABCDEFGHIJKLMNOPQRSTUVWXYZ'' ''abcdefghijklmnopqrstuvwxyz'') c of
        Some l \<Rightarrow> l
      | None \<Rightarrow> c)"

definition toLowerCase_ascii :: "string \<Rightarrow> string" where
  "toLowerCase_ascii s = map toLowerCase_char s"

datatype js_error = TypeError | Error string

subsection \<open>The insertion-ordered Map\<close>

text \<open>
  A JavaScript \<^verbatim>\<open>Map\<close> keeps its entries in insertion order; \<^verbatim>\<open>set\<close> on a key that is
  present replaces the value in place, on a new key it appends the entry.
\<close>

primrec Map_set :: "'k \<Rightarrow> 'v \<Rightarrow> ('k \<times> 'v) list \<Rightarrow> ('k \<times> 'v) list" where
  "Map_set k v [] = [(k, v)]"
| "Map_set k v (p # ps) = (if fst p = k then (k, v) # ps else p # Map_set k v ps)"

definition Map_get :: "('k \<times> 'v) list \<Rightarrow> 'k \<Rightarrow> 'v option" where
  "Map_get m k = map_of m k"

definition Map_delete :: "'k \<Rightarrow> ('k \<times> 'v) list \<Rightarrow> ('k \<times> 'v) list" where
  "Map_delete k m = filter (\<lambda>p. fst p \<noteq> k) m"

definition Map_values :: "('k \<times> 'v) list \<Rightarrow> 'v list" where
  "Map_values m = map snd m"

section \<open>DeviceManager (required by index.js as lib/deviceManager)\<close>

record activity =
  timestamp :: int
  activityType :: string
  data :: string

record pair =
  name :: jsstr
  sonosDevice :: jsstr
  fusionDevice :: jsstr
  fusionInput :: string
  volumeSync :: bool
  enabled :: bool
  lastActivity :: "activity option"
  status :: string

text \<open>
  A pair configuration object, as the options, the REST body and the import payload carry
  it. The four required properties may be absent; the two flags default to true unless
  they are \<^verbatim>\<open>false\<close>.
\<close>

record pair_config =
  cfg_name :: jsstr
  cfg_sonosDevice :: jsstr
  cfg_fusionDevice :: jsstr
  cfg_fusionInput :: jsstr
  cfg_volumeSync :: "bool option"
  cfg_enabled :: "bool option"

text \<open>
  The \<^verbatim>\<open>updates\<close> object of \<^verbatim>\<open>updateDevicePair\<close>: each property of a pair is either
  absent (\<open>None\<close>) or carries the new value.
\<close>

record pair_updates =
  upd_name :: "jsstr option"
  upd_sonosDevice :: "jsstr option"
  upd_fusionDevice :: "jsstr option"
  upd_fusionInput :: "string option"
  upd_volumeSync :: "bool option"
  upd_enabled :: "bool option"
  upd_lastActivity :: "activity option option"
  upd_status :: "string option"

datatype dm_event = DevicePairReady pair | DevicePairRemoved pair

text \<open>
  The state of a DeviceManager: the \<^verbatim>\<open>devicePairs\<close> Map, the events it has emitted so
  far (each with the pair as it was when emitted) and the messages it has passed to
  \<^verbatim>\<open>app.error\<close>. Calls of \<^verbatim>\<open>app.debug\<close> are not recorded. A method that changes the
  state has the result type \<open>js_error + DeviceManager\<close>: \<open>Inl\<close> is an exception thrown
  out of the method, \<open>Inr\<close> the state after it has returned.
\<close>

record DeviceManager =
  devicePairs :: "(jsstr \<times> pair) list"
  emitted :: "dm_event list"
  errors :: "string list"

definition constructor :: DeviceManager where
  "constructor = \<lparr>devicePairs = [], emitted = [], errors = []\<rparr>"

definition emit :: "dm_event \<Rightarrow> DeviceManager \<Rightarrow> DeviceManager" where
  "emit e dm = dm\<lparr>emitted := emitted dm @ [e]\<rparr>"

definition app_error :: "string \<Rightarrow> DeviceManager \<Rightarrow> DeviceManager" where
  "app_error msg dm = dm\<lparr>errors := errors dm @ [msg]\<rparr>"

definition validInputs :: "string list" where
  "validInputs = [''aux1'', ''aux2'', ''aux3'', ''usb'', ''bluetooth'', ''am'', ''fm'']"

definition missing_field :: "string \<Rightarrow> string" where
  "missing_field field =
     ''Missing required field '' @ [CHR 0x27] @ field @ [CHR 0x27] @ '' in device pair config''"

text \<open>
  \<^verbatim>\<open>validatePairConfig\<close> returns its verdict together with the message it logs through
  \<^verbatim>\<open>app.error\<close> when the verdict is false.
\<close>

definition validatePairConfig :: "(string \<Rightarrow> string) \<Rightarrow> pair_config \<Rightarrow> bool \<times> string list" where
  "validatePairConfig toLowerCase config =
     (if falsy (cfg_name config) then (False, [missing_field ''name''])
      else if falsy (cfg_sonosDevice config) then (False, [missing_field ''sonosDevice''])
      else if falsy (cfg_fusionDevice config) then (False, [missing_field ''fusionDevice''])
      else (case cfg_fusionInput config of
              None \<Rightarrow> (False, [missing_field ''fusionInput''])
            | Some fi \<Rightarrow>
                if fi = [] then (False, [missing_field ''fusionInput''])
                else if toLowerCase fi \<in> set validInputs then (True, [])
                else (False, [''Invalid fusion input: '' @ fi])))"

text \<open>
  \<^verbatim>\<open>addDevicePair\<close> builds the pair first; \<^verbatim>\<open>config.fusionInput.toLowerCase()\<close> throws
  a TypeError when the property is absent, before anything is stored.
\<close>

definition addDevicePair ::
    "(string \<Rightarrow> string) \<Rightarrow> pair_config \<Rightarrow> DeviceManager \<Rightarrow> js_error + DeviceManager" where
  "addDevicePair toLowerCase config dm =
     (case cfg_fusionInput config of
        None \<Rightarrow> Inl TypeError
      | Some fi \<Rightarrow>
          (let p = \<lparr>name = cfg_name config,
                    sonosDevice = cfg_sonosDevice config,
                    fusionDevice = cfg_fusionDevice config,
                    fusionInput = toLowerCase fi,
                    volumeSync = (cfg_volumeSync config \<noteq> Some False),
                    enabled = (cfg_enabled config \<noteq> Some False),
                    lastActivity = None,
                    status = ''ready''\<rparr>;
               dm1 = dm\<lparr>devicePairs := Map_set (cfg_name config) p (devicePairs dm)\<rparr>
           in Inr (if enabled p then emit (DevicePairReady p) dm1 else dm1)))"

definition removeDevicePair :: "jsstr \<Rightarrow> DeviceManager \<Rightarrow> js_error + DeviceManager" where
  "removeDevicePair nm dm =
     (case Map_get (devicePairs dm) nm of
        Some p \<Rightarrow> Inr (emit (DevicePairRemoved p)
                        (dm\<lparr>devicePairs := Map_delete nm (devicePairs dm)\<rparr>))
      | None \<Rightarrow> Inr dm)"

text \<open>\<^verbatim>\<open>Object.assign(pair, updates)\<close>: every property present in the updates overwrites the pair's.\<close>

definition Object_assign :: "pair \<Rightarrow> pair_updates \<Rightarrow> pair" where
  "Object_assign p u =
     \<lparr>name = (case upd_name u of None \<Rightarrow> name p | Some v \<Rightarrow> v),
      sonosDevice = (case upd_sonosDevice u of None \<Rightarrow> sonosDevice p | Some v \<Rightarrow> v),
      fusionDevice = (case upd_fusionDevice u of None \<Rightarrow> fusionDevice p | Some v \<Rightarrow> v),
      fusionInput = (case upd_fusionInput u of None \<Rightarrow> fusionInput p | Some v \<Rightarrow> v),
      volumeSync = (case upd_volumeSync u of None \<Rightarrow> volumeSync p | Some v \<Rightarrow> v),
      enabled = (case upd_enabled u of None \<Rightarrow> enabled p | Some v \<Rightarrow> v),
      lastActivity = (case upd_lastActivity u of None \<Rightarrow> lastActivity p | Some v \<Rightarrow> v),
      status = (case upd_status u of None \<Rightarrow> status p | Some v \<Rightarrow> v)\<rparr>"

text \<open>
  \<^verbatim>\<open>updateDevicePair\<close> mutates the stored pair object in place, so the entry keeps its key
  and its position. For an unknown name it logs through \<^verbatim>\<open>app.error\<close> and returns.
\<close>

definition updateDevicePair ::
    "jsstr \<Rightarrow> pair_updates \<Rightarrow> DeviceManager \<Rightarrow> js_error + DeviceManager" where
  "updateDevicePair nm updates dm =
     (case Map_get (devicePairs dm) nm of
        None \<Rightarrow> Inr (app_error (''Device pair not found: '' @ template nm) dm)
      | Some p \<Rightarrow>
          (let oldEnabled = enabled p;
               p' = Object_assign p updates;
               dm1 = dm\<lparr>devicePairs := Map_set nm p' (devicePairs dm)\<rparr>
           in Inr (if \<not> oldEnabled \<and> enabled p' then emit (DevicePairReady p') dm1
                   else if oldEnabled \<and> \<not> enabled p' then emit (DevicePairRemoved p') dm1
                   else dm1)))"

definition getPairByName :: "DeviceManager \<Rightarrow> jsstr \<Rightarrow> pair option" where
  "getPairByName dm nm = Map_get (devicePairs dm) nm"

definition getPairBySonosDevice :: "DeviceManager \<Rightarrow> jsstr \<Rightarrow> pair option" where
  "getPairBySonosDevice dm deviceId =
     find (\<lambda>p. sonosDevice p = deviceId \<and> enabled p) (Map_values (devicePairs dm))"

definition getPairByFusionDevice :: "DeviceManager \<Rightarrow> jsstr \<Rightarrow> pair option" where
  "getPairByFusionDevice dm deviceId =
     find (\<lambda>p. fusionDevice p = deviceId \<and> enabled p) (Map_values (devicePairs dm))"

definition getAllPairs :: "DeviceManager \<Rightarrow> pair list" where
  "getAllPairs dm = Map_values (devicePairs dm)"

definition getEnabledPairs :: "DeviceManager \<Rightarrow> pair list" where
  "getEnabledPairs dm = filter enabled (Map_values (devicePairs dm))"

text \<open>\<^verbatim>\<open>updatePairActivity\<close> stamps the activity with the reading of \<^verbatim>\<open>Date.now()\<close>.\<close>

definition updatePairActivity ::
    "int \<Rightarrow> jsstr \<Rightarrow> string \<times> string \<Rightarrow> DeviceManager \<Rightarrow> DeviceManager" where
  "updatePairActivity now pairName act dm =
     (case Map_get (devicePairs dm) pairName of
        Some p \<Rightarrow>
          dm\<lparr>devicePairs :=
               Map_set pairName
                 (p\<lparr>lastActivity :=
                      Some \<lparr>timestamp = now, activityType = fst act, data = snd act\<rparr>\<rparr>)
                 (devicePairs dm)\<rparr>
      | None \<Rightarrow> dm)"

text \<open>
  A configuration object \<^verbatim>\<open>{devicePairs: [...]}\<close> is the list under its \<open>devicePairs\<close>
  property, \<open>None\<close> when the property is absent or is not an array.
\<close>

type_synonym configuration = "pair_config list option"

definition export_pair :: "pair \<Rightarrow> pair_config" where
  "export_pair p =
     \<lparr>cfg_name = name p,
      cfg_sonosDevice = sonosDevice p,
      cfg_fusionDevice = fusionDevice p,
      cfg_fusionInput = Some (fusionInput p),
      cfg_volumeSync = Some (volumeSync p),
      cfg_enabled = Some (enabled p)\<rparr>"

definition exportConfiguration :: "DeviceManager \<Rightarrow> configuration" where
  "exportConfiguration dm = Some (map export_pair (Map_values (devicePairs dm)))"

text \<open>The \<^verbatim>\<open>forEach\<close> of \<^verbatim>\<open>importConfiguration\<close>; an invalid record is logged and skipped.\<close>

fun import_each ::
    "(string \<Rightarrow> string) \<Rightarrow> pair_config list \<Rightarrow> DeviceManager \<Rightarrow> js_error + DeviceManager" where
  "import_each toLowerCase [] dm = Inr dm"
| "import_each toLowerCase (pairConfig # rest) dm =
     (case validatePairConfig toLowerCase pairConfig of
        (True, msgs) \<Rightarrow>
          (case addDevicePair toLowerCase pairConfig (dm\<lparr>errors := errors dm @ msgs\<rparr>) of
             Inl e \<Rightarrow> Inl e
           | Inr dm' \<Rightarrow> import_each toLowerCase rest dm')
      | (False, msgs) \<Rightarrow>
          import_each toLowerCase rest
            (app_error (''Skipping invalid device pair: '' @ template (cfg_name pairConfig))
               (dm\<lparr>errors := errors dm @ msgs\<rparr>)))"

definition importConfiguration ::
    "(string \<Rightarrow> string) \<Rightarrow> configuration \<Rightarrow> DeviceManager \<Rightarrow> js_error + DeviceManager" where
  "importConfiguration toLowerCase config dm =
     (case config of
        None \<Rightarrow> Inl (Error ''Invalid configuration format'')
      | Some pairs \<Rightarrow> import_each toLowerCase pairs (dm\<lparr>devicePairs := []\<rparr>))"

definition sonos_conflict :: "jsstr \<Rightarrow> pair \<Rightarrow> string" where
  "sonos_conflict sonosDev p =
     ''Sonos device '' @ template sonosDev @ '' is already paired with '' @ template (name p)"

definition fusion_conflict :: "jsstr \<Rightarrow> pair \<Rightarrow> string" where
  "fusion_conflict fusionDev p =
     ''Fusion device '' @ template fusionDev @ '' is already paired with '' @ template (name p)"

record association =
  valid :: bool
  conflicts :: "string list"

definition validateDeviceAssociation :: "DeviceManager \<Rightarrow> jsstr \<Rightarrow> jsstr \<Rightarrow> association" where
  "validateDeviceAssociation dm sonosDev fusionDev =
     (let existingSonosPair = getPairBySonosDevice dm sonosDev;
          existingFusionPair = getPairByFusionDevice dm fusionDev;
          conflicts1 = (case existingSonosPair of
                          None \<Rightarrow> []
                        | Some p \<Rightarrow> [sonos_conflict sonosDev p]);
          conflicts2 = (case existingFusionPair of
                          None \<Rightarrow> conflicts1
                        | Some p \<Rightarrow> conflicts1 @ [fusion_conflict fusionDev p])
      in \<lparr>valid = (length conflicts2 = 0), conflicts = conflicts2\<rparr>)"

record recent_entry =
  pairName :: jsstr
  entry_timestamp :: int
  entry_type :: string

record statistics =
  totalPairs :: nat
  enabledPairs :: nat
  activePairs :: nat
  recentActivity :: "recent_entry list"

text \<open>
  \<^verbatim>\<open>_.orderBy(xs, ['timestamp'], ['desc'])\<close> of lodash: a stable sort, descending by
  timestamp; records with equal timestamps keep their order.
\<close>

definition orderBy_timestamp_desc :: "recent_entry list \<Rightarrow> recent_entry list" where
  "orderBy_timestamp_desc xs = sort_key (\<lambda>e. - entry_timestamp e) xs"

text \<open>
  The body of \<^verbatim>\<open>pairs.forEach\<close> in \<^verbatim>\<open>getDeviceStatistics\<close>, on the counter
  \<open>stats.activePairs\<close> and the array \<open>stats.recentActivity\<close>. The code reads
  \<^verbatim>\<open>Date.now()\<close> once for every pair that has a \<open>lastActivity\<close>; the model takes all
  these readings of one call to be the same value \<open>now\<close>.
\<close>

definition stats_step :: "int \<Rightarrow> pair \<Rightarrow> nat \<times> recent_entry list \<Rightarrow> nat \<times> recent_entry list" where
  "stats_step now p acc =
     (case lastActivity p of
        None \<Rightarrow> acc
      | Some a \<Rightarrow>
          ((if now - timestamp a < 300000 then fst acc + 1 else fst acc),
           snd acc @ [\<lparr>pairName = name p, entry_timestamp = timestamp a,
                       entry_type = activityType a\<rparr>]))"

definition getDeviceStatistics :: "int \<Rightarrow> DeviceManager \<Rightarrow> statistics" where
  "getDeviceStatistics now dm =
     (let pairs = Map_values (devicePairs dm);
          acc = fold (stats_step now) pairs (0, [])
      in \<lparr>totalPairs = length (devicePairs dm),
          enabledPairs = length (getEnabledPairs dm),
          activePairs = fst acc,
          recentActivity = take 10 (orderBy_timestamp_desc (snd acc))\<rparr>)"

section \<open>SonosController (lib/sonosController)\<close>

text \<open>
  \<^verbatim>\<open>normalizePlaybackState\<close> switches on \<^verbatim>\<open>state?.toLowerCase()\<close>; an absent state
  falls to the default case.
\<close>

definition normalizePlaybackState :: "(string \<Rightarrow> string) \<Rightarrow> jsstr \<Rightarrow> string" where
  "normalizePlaybackState toLowerCase state =
     (case map_option toLowerCase state of
        None \<Rightarrow> ''unknown''
      | Some s \<Rightarrow>
          if s = ''playing'' then ''playing''
          else if s = ''paused_playback'' \<or> s = ''paused'' then ''paused''
          else if s = ''stopped'' then ''stopped''
          else if s = ''transitioning'' then ''transitioning''
          else ''unknown'')"

text \<open>
  The controller written against the other Sonos client library (the second
  SonosController of the sources) switches on the state itself and has no
  \<open>paused_playback\<close> case.
\<close>

definition normalizePlaybackState_exact :: "jsstr \<Rightarrow> string" where
  "normalizePlaybackState_exact state =
     (case state of
        None \<Rightarrow> ''unknown''
      | Some s \<Rightarrow>
          if s = ''playing'' then ''playing''
          else if s = ''paused'' then ''paused''
          else if s = ''stopped'' then ''stopped''
          else if s = ''transitioning'' then ''transitioning''
          else ''unknown'')"

section \<open>The plugin's event handlers (index.js) and the commands they issue\<close>

text \<open>
  \<^verbatim>\<open>Math.round\<close> rounds to the nearest integer, a half towards plus infinity.
  JavaScript computes the quotients in double precision; for the integer volumes of the
  devices the exact value is never within rounding error of a half, and the model computes
  in the rationals.
\<close>

definition Math_round :: "rat \<Rightarrow> int" where
  "Math_round x = \<lfloor>x + 1 / 2\<rfloor>"

text \<open>An entry of \<^verbatim>\<open>FusionController.devices\<close>; the command target is the device id.\<close>

record fusion_device =
  currentInput :: jsstr
  currentVolume :: "int option"

datatype sk_value = StrValue string | NumValue rat

text \<open>
  What a handler does to the outside, in call order: a command posted to a Fusion device
  (\<^verbatim>\<open>sendCommand(device, command, {param: n})\<close>; \<open>FusionCommandInherited\<close> when the
  parameter is not a number but the member of \<^verbatim>\<open>Object.prototype\<close> under the given
  key), \<^verbatim>\<open>SetVolume\<close> on a Sonos device, a
  delta passed to \<^verbatim>\<open>app.handleMessage\<close> (its timestamp, path and value), and the calls of
  the NMEA 2000 handler.
\<close>

datatype effect =
    FusionCommand jsstr string int
  | FusionCommandInherited jsstr string string
  | SonosSetVolume jsstr int
  | HandleMessage int string sk_value
  | NmeaUpdatePlaybackState jsstr string
  | NmeaUpdateVolume jsstr int

text \<open>
  The plugin's closure: the device manager, the devices the two controllers track, whether
  \<open>nmea2000Handler\<close> is set, and the effects so far.
\<close>

record plugin =
  deviceManager :: DeviceManager
  fusionDevices :: "(jsstr \<times> fusion_device) list"
  sonosDevices :: "jsstr list"
  nmea2000Handler :: bool
  effects :: "effect list"

definition perform :: "effect \<Rightarrow> plugin \<Rightarrow> plugin" where
  "perform e pl = pl\<lparr>effects := effects pl @ [e]\<rparr>"

text \<open>
  \<^verbatim>\<open>inputMap\<close> is an object literal, so \<^verbatim>\<open>inputMap[key]\<close> answers its seven own keys
  with their numbers and every key of \<^verbatim>\<open>Object.prototype\<close> with the member inherited
  from there (a function or an object, never falsy); any other key gives undefined.
\<close>

datatype input_value = InputNumber int | Inherited string

definition Object_prototype_keys :: "string list" where
  "Object_prototype_keys =
     [''constructor'', ''__defineGetter__'', ''__defineSetter__'', ''hasOwnProperty'',
      ''__lookupGetter__'', ''__lookupSetter__'', ''isPrototypeOf'', ''propertyIsEnumerable'',
      ''toString'', ''valueOf'', ''__proto__'', ''toLocaleString'']"

definition inputMap :: "string \<Rightarrow> input_value option" where
  "inputMap key =
     (case map_of [(''aux1'', 1), (''aux2'', 2), (''aux3'', 3), (''usb'', 4),
                   (''bluetooth'', 5), (''am'', 6), (''fm'', 7)] key of
        Some n \<Rightarrow> Some (InputNumber n)
      | None \<Rightarrow> if key \<in> set Object_prototype_keys then Some (Inherited key) else None)"

text \<open>The \<open>setInput\<close> command posted for a value found in \<^verbatim>\<open>inputMap\<close>.\<close>

definition setInput_command :: "jsstr \<Rightarrow> input_value \<Rightarrow> effect" where
  "setInput_command deviceId v =
     (case v of
        InputNumber n \<Rightarrow> FusionCommand deviceId ''setInput'' n
      | Inherited k \<Rightarrow> FusionCommandInherited deviceId ''setInput'' k)"

text \<open>
  The two Fusion commands are asynchronous: the command is posted during the call, the
  device's answer (\<open>success\<close>) arrives later and only then is the cached value updated.
  The model applies the answer at once; the order of the effects is that of the calls.
\<close>

definition FusionController_switchInput ::
    "(string \<Rightarrow> string) \<Rightarrow> bool \<Rightarrow> jsstr \<Rightarrow> string \<Rightarrow> plugin \<Rightarrow> plugin" where
  "FusionController_switchInput toLowerCase success deviceId inputSource pl =
     (case Map_get (fusionDevices pl) deviceId of
        None \<Rightarrow> pl
      | Some device \<Rightarrow>
          (case inputMap (toLowerCase inputSource) of
             None \<Rightarrow> pl
           | Some inputNumber \<Rightarrow>
               (let pl1 = perform (setInput_command deviceId inputNumber) pl
                in if success
                   then pl1\<lparr>fusionDevices :=
                              Map_set deviceId (device\<lparr>currentInput := Some inputSource\<rparr>)
                                (fusionDevices pl1)\<rparr>
                   else pl1)))"

definition FusionController_setVolume :: "bool \<Rightarrow> jsstr \<Rightarrow> int \<Rightarrow> plugin \<Rightarrow> plugin" where
  "FusionController_setVolume success deviceId volume pl =
     (case Map_get (fusionDevices pl) deviceId of
        None \<Rightarrow> pl
      | Some device \<Rightarrow>
          (let fusionVolume = Math_round ((of_int volume / 100) * 40);
               pl1 = perform (FusionCommand deviceId ''setVolume'' fusionVolume) pl
           in if success
              then pl1\<lparr>fusionDevices :=
                         Map_set deviceId (device\<lparr>currentVolume := Some volume\<rparr>)
                           (fusionDevices pl1)\<rparr>
              else pl1))"

definition SonosController_setVolume :: "jsstr \<Rightarrow> int \<Rightarrow> plugin \<Rightarrow> plugin" where
  "SonosController_setVolume deviceId volume pl =
     (if deviceId \<in> set (sonosDevices pl) then perform (SonosSetVolume deviceId volume) pl
      else pl)"

definition handlePlaybackStateChanged ::
    "(string \<Rightarrow> string) \<Rightarrow> int \<Rightarrow> bool \<Rightarrow> jsstr \<Rightarrow> string \<Rightarrow> plugin \<Rightarrow> plugin" where
  "handlePlaybackStateChanged toLowerCase now success device state pl =
     (case getPairBySonosDevice (deviceManager pl) device of
        None \<Rightarrow> pl
      | Some p \<Rightarrow>
          (let pl1 = (if state = ''playing''
                      then FusionController_switchInput toLowerCase success (fusionDevice p)
                             (fusionInput p) pl
                      else pl);
               pl2 = perform (HandleMessage now
                                (''entertainment.audio.'' @ template (name p) @ ''.playbackState'')
                                (StrValue state)) pl1
           in if nmea2000Handler pl2 then perform (NmeaUpdatePlaybackState (name p) state) pl2
              else pl2))"

definition handleVolumeChanged :: "int \<Rightarrow> bool \<Rightarrow> jsstr \<Rightarrow> int \<Rightarrow> plugin \<Rightarrow> plugin" where
  "handleVolumeChanged now success device volume pl =
     (case getPairBySonosDevice (deviceManager pl) device of
        None \<Rightarrow> pl
      | Some p \<Rightarrow>
          if \<not> volumeSync p then pl
          else
            (let pl1 = FusionController_setVolume success (fusionDevice p) volume pl;
                 pl2 = perform (HandleMessage now
                                  (''entertainment.audio.'' @ template (name p) @ ''.volume'')
                                  (NumValue (of_int volume / 100))) pl1
             in if nmea2000Handler pl2 then perform (NmeaUpdateVolume (name p) volume) pl2
                else pl2))"

definition handleFusionVolumeChanged :: "jsstr \<Rightarrow> int \<Rightarrow> plugin \<Rightarrow> plugin" where
  "handleFusionVolumeChanged device volume pl =
     (case getPairByFusionDevice (deviceManager pl) device of
        None \<Rightarrow> pl
      | Some p \<Rightarrow>
          if \<not> volumeSync p then pl
          else SonosController_setVolume (sonosDevice p) volume pl)"

section \<open>Predicates of the specification\<close>

text \<open>
  The words of the specification, to compare the code with: the activity records of the
  pairs that have one, in registry order, and the pairs whose last activity is less than
  five minutes old.
\<close>

definition spec_activity_records :: "pair list \<Rightarrow> recent_entry list" where
  "spec_activity_records ps =
     concat (map (\<lambda>p. case lastActivity p of
                         None \<Rightarrow> []
                       | Some a \<Rightarrow> [\<lparr>pairName = name p, entry_timestamp = timestamp a,
                                      entry_type = activityType a\<rparr>]) ps)"

definition spec_recently_active :: "int \<Rightarrow> pair \<Rightarrow> bool" where
  "spec_recently_active now p =
     (case lastActivity p of None \<Rightarrow> False | Some a \<Rightarrow> now - timestamp a < 300000)"

text \<open>The registry invariant: every entry is stored under its pair's name.\<close>

definition keys_are_names :: "DeviceManager \<Rightarrow> bool" where
  "keys_are_names dm = list_all (\<lambda>(k, p). name p = k) (devicePairs dm)"


section \<open>A registry to run the operations on\<close>

definition salon :: pair where
  "salon = \<lparr>name = Some ''salon'', sonosDevice = Some ''10.0.0.5:1400'',
            fusionDevice = Some ''10.0.0.9:80'', fusionInput = ''aux1'',
            volumeSync = True, enabled = True, lastActivity = None, status = ''ready''\<rparr>"

definition salon_only :: DeviceManager where
  "salon_only = \<lparr>devicePairs = [(Some ''salon'', salon)], emitted = [], errors = []\<rparr>"

definition no_updates :: pair_updates where
  "no_updates = \<lparr>upd_name = None, upd_sonosDevice = None, upd_fusionDevice = None,
                 upd_fusionInput = None, upd_volumeSync = None, upd_enabled = None,
                 upd_lastActivity = None, upd_status = None\<rparr>"

definition deck :: pair where
  "deck = \<lparr>name = Some ''deck'', sonosDevice = Some ''10.0.0.5:1400'',
           fusionDevice = Some ''10.0.0.12:80'', fusionInput = ''usb'',
           volumeSync = False, enabled = False,
           lastActivity = Some \<lparr>timestamp = 1700000000000, activityType = ''volume'',
                                 data = ''40''\<rparr>,
           status = ''idle''\<rparr>"

definition salon_and_deck :: DeviceManager where
  "salon_and_deck =
     \<lparr>devicePairs = [(Some ''salon'', salon), (Some ''deck'', deck)], emitted = [], errors = []\<rparr>"

definition bow :: pair where
  "bow = \<lparr>name = Some ''bow'', sonosDevice = Some ''10.0.0.7:1400'',
          fusionDevice = Some ''10.0.0.13:80'', fusionInput = ''aux2'',
          volumeSync = True, enabled = True,
          lastActivity = Some \<lparr>timestamp = 1700000000000, activityType = ''track'',
                                data = ''Intro''\<rparr>,
          status = ''ready''\<rparr>"

definition stern :: pair where
  "stern = \<lparr>name = Some ''stern'', sonosDevice = Some ''10.0.0.8:1400'',
            fusionDevice = Some ''10.0.0.14:80'', fusionInput = ''aux3'',
            volumeSync = True, enabled = True,
            lastActivity = Some \<lparr>timestamp = 1700000400000, activityType = ''playback'',
                                  data = ''playing''\<rparr>,
            status = ''ready''\<rparr>"

definition four_pairs :: DeviceManager where
  "four_pairs =
     \<lparr>devicePairs = [(Some ''salon'', salon), (Some ''deck'', deck), (Some ''bow'', bow),
                     (Some ''stern'', stern)],
      emitted = [], errors = []\<rparr>"

definition salon_plugin :: plugin where
  "salon_plugin =
     \<lparr>deviceManager = salon_only,
      fusionDevices = [(Some ''10.0.0.9:80'', \<lparr>currentInput = None, currentVolume = None\<rparr>)],
      sonosDevices = [Some ''10.0.0.5:1400''],
      nmea2000Handler = True,
      effects = []\<rparr>"

definition cabin :: pair where
  "cabin = \<lparr>name = Some ''cabin'', sonosDevice = Some ''10.0.0.21:1400'',
            fusionDevice = Some ''10.0.0.22:80'', fusionInput = ''AUX2'',
            volumeSync = False, enabled = True, lastActivity = None, status = ''ready''\<rparr>"

definition salon_again :: pair_config where
  "salon_again = \<lparr>cfg_name = Some ''salon'', cfg_sonosDevice = Some ''10.0.0.6:1400'',
                  cfg_fusionDevice = Some ''10.0.0.9:80'', cfg_fusionInput = Some ''USB'',
                  cfg_volumeSync = None, cfg_enabled = None\<rparr>"

definition salon_renamed :: DeviceManager where
  "salon_renamed =
     \<lparr>devicePairs = [(Some ''salon'', salon\<lparr>name := Some ''deck''\<rparr>)], emitted = [], errors = []\<rparr>"

section \<open>Facts about the Map operations\<close>

lemma Map_get_Map_set_same: "Map_get (Map_set k v m) k = Some v"
  by (induction m) (auto simp: Map_get_def)

lemma Map_get_None_iff: "Map_get m k = None \<longleftrightarrow> k \<notin> fst ` set m"
  by (simp add: Map_get_def map_of_eq_None_iff)

lemma Map_get_Some_key: "Map_get m k = Some v \<Longrightarrow> k \<in> fst ` set m"
  using Map_get_None_iff [of m k] by auto

lemma Map_get_Some_mem: "Map_get m k = Some v \<Longrightarrow> (k, v) \<in> set m"
  by (simp add: Map_get_def map_of_SomeD)

lemma keys_Map_set_present: "k \<in> fst ` set m \<Longrightarrow> map fst (Map_set k v m) = map fst m"
  by (induction m) auto


lemma set_Map_set_subset: "set (Map_set k v m) \<subseteq> insert (k, v) (set m)"
  by (induction m) auto

lemma set_Map_delete_subset: "set (Map_delete k m) \<subseteq> set m"
  by (auto simp: Map_delete_def)

section \<open>Volume synchronization\<close>

lemma Math_round_percent_to_native:
  "Math_round ((of_int v / 100) * 40) = (4 * v + 5) div 10"
proof -
  have "(of_int v / 100) * 40 + 1 / 2 = (of_int (4 * v + 5) :: rat) / of_int 10"
    by simp
  then have "Math_round ((of_int v / 100) * 40) = \<lfloor>(of_int (4 * v + 5) :: rat) / of_int 10\<rfloor>"
    by (simp only: Math_round_def)
  then show ?thesis
    by (simp only: floor_divide_of_int_eq)
qed

lemma Math_round_native_to_percent:
  "Math_round ((of_int u / 40) * 100) = (5 * u + 1) div 2"
proof -
  have "(of_int u / 40) * 100 + 1 / 2 = (of_int (5 * u + 1) :: rat) / of_int 2"
    by simp
  then have "Math_round ((of_int u / 40) * 100) = \<lfloor>(of_int (5 * u + 1) :: rat) / of_int 2\<rfloor>"
    by (simp only: Math_round_def)
  then show ?thesis
    by (simp only: floor_divide_of_int_eq)
qed

lemma source_volume_command:
  assumes "getPairBySonosDevice (deviceManager pl) device = Some p"
    and "volumeSync p"
    and "Map_get (fusionDevices pl) (fusionDevice p) = Some d"
  shows "effects (handleVolumeChanged now success device v pl) =
           effects pl @
           [FusionCommand (fusionDevice p) ''setVolume'' (Math_round ((of_int v / 100) * 40)),
            HandleMessage now (''entertainment.audio.'' @ template (name p) @ ''.volume'')
              (NumValue (of_int v / 100))] @
           (if nmea2000Handler pl then [NmeaUpdateVolume (name p) v] else [])"
  using assms
  by (simp add: handleVolumeChanged_def FusionController_setVolume_def Let_def perform_def)

lemma amp_volume_command:
  assumes "getPairByFusionDevice (deviceManager pl) device = Some p"
    and "volumeSync p"
    and "sonosDevice p \<in> set (sonosDevices pl)"
  shows "effects (handleFusionVolumeChanged device u pl) =
           effects pl @ [SonosSetVolume (sonosDevice p) u]"
  using assms
  by (simp add: handleFusionVolumeChanged_def SonosController_setVolume_def perform_def)

text \<open>
  C1. The claim holds for the source-to-amp direction and fails for the amp-to-source
  direction: on the pair \<open>salon\<close> (enabled, volume sync on, both devices tracked) a source
  volume of 50 issues the amp command \<open>setVolume 20\<close>, which is \<open>round(50/100*40)\<close>, but
  an amp volume of 20 issues \<open>SetVolume 20\<close> on the source, where the claim requires
  \<open>round(20/40*100) = 50\<close>: \<^verbatim>\<open>handleFusionVolumeChanged\<close> passes the native value through
  and \<^verbatim>\<open>SonosController.setVolume\<close> does not convert it. The two directions composed
  turn 50 into 20.
\<close>

theorem amp_volume_not_converted:
  "effects (handleVolumeChanged 1700000000000 True (Some ''10.0.0.5:1400'') 50 salon_plugin) =
     [FusionCommand (Some ''10.0.0.9:80'') ''setVolume'' 20,
      HandleMessage 1700000000000 ''entertainment.audio.salon.volume'' (NumValue (1 / 2)),
      NmeaUpdateVolume (Some ''salon'') 50] \<and>
   effects (handleFusionVolumeChanged (Some ''10.0.0.9:80'') 20 salon_plugin) =
     [SonosSetVolume (Some ''10.0.0.5:1400'') 20] \<and>
   Math_round ((20 / 40) * 100) = 50"
proof -
  have s: "getPairBySonosDevice (deviceManager salon_plugin) (Some ''10.0.0.5:1400'') = Some salon"
    by (simp add: getPairBySonosDevice_def salon_plugin_def salon_only_def Map_values_def
        salon_def)
  have f: "getPairByFusionDevice (deviceManager salon_plugin) (Some ''10.0.0.9:80'') = Some salon"
    by (simp add: getPairByFusionDevice_def salon_plugin_def salon_only_def Map_values_def
        salon_def)
  have sync: "volumeSync salon"
    by (simp add: salon_def)
  have d: "Map_get (fusionDevices salon_plugin) (fusionDevice salon) =
      Some \<lparr>currentInput = None, currentVolume = None\<rparr>"
    by (simp add: Map_get_def salon_plugin_def salon_def)
  have t: "sonosDevice salon \<in> set (sonosDevices salon_plugin)"
    by (simp add: salon_plugin_def salon_def)
  have r: "Math_round ((of_int 50 / 100) * 40) = 20"
    using Math_round_percent_to_native [of 50] by simp
  have fwd: "effects (handleVolumeChanged 1700000000000 True (Some ''10.0.0.5:1400'') 50
      salon_plugin) =
     [FusionCommand (Some ''10.0.0.9:80'') ''setVolume'' 20,
      HandleMessage 1700000000000 ''entertainment.audio.salon.volume'' (NumValue (1 / 2)),
      NmeaUpdateVolume (Some ''salon'') 50]"
    using source_volume_command [OF s sync d, of 1700000000000 True 50] r
    by (simp add: salon_plugin_def salon_def template_def)
  have bwd: "effects (handleFusionVolumeChanged (Some ''10.0.0.9:80'') 20 salon_plugin) =
     [SonosSetVolume (Some ''10.0.0.5:1400'') 20]"
    using amp_volume_command [OF f sync t, of 20]
    by (simp add: salon_plugin_def salon_def)
  have "Math_round ((20 / 40) * 100) = 50"
    using Math_round_native_to_percent [of 20] by simp
  with fwd bwd show ?thesis by simp
qed

section \<open>Playback state normalization\<close>

text \<open>
  C2, as stated: every string other than the five listed maps to \<open>unknown\<close>, and
  \<open>paused_playback\<close> maps to \<open>paused\<close>. In the controller of lib/sonosController.js the
  upper-case \<open>PLAYING\<close>, which is none of the five, maps to \<open>playing\<close>; in the second
  controller \<open>paused_playback\<close> maps to \<open>unknown\<close>.
\<close>

theorem normalize_upper_case_counterexample:
  "normalizePlaybackState toLowerCase_ascii (Some ''PLAYING'') = ''playing'' \<and>
   normalizePlaybackState_exact (Some ''paused_playback'') = ''unknown''"
  by (simp add: normalizePlaybackState_def normalizePlaybackState_exact_def
      toLowerCase_ascii_def toLowerCase_char_def)

text \<open>
  C2, amended. The controller of lib/sonosController.js lower-cases the state first (with
  the runtime's \<open>toLowerCase\<close>, whatever it maps): every string whose lower-case form is
  \<open>playing\<close> maps to \<open>playing\<close>, \<open>paused\<close> or \<open>paused_playback\<close> to \<open>paused\<close>, \<open>stopped\<close>
  to \<open>stopped\<close>, \<open>transitioning\<close> to \<open>transitioning\<close>; every string whose lower-case form
  is none of these, and an absent state, maps to \<open>unknown\<close>. The second controller
  compares the state itself: \<open>playing\<close>, \<open>paused\<close>, \<open>stopped\<close> and \<open>transitioning\<close> map to
  themselves and every other string, \<open>paused_playback\<close> among them, and an absent state
  map to \<open>unknown\<close>.
\<close>

theorem normalize_both_controllers:
  "normalizePlaybackState toLowerCase None = ''unknown'' \<and>
   (toLowerCase s = ''playing''
      \<longrightarrow> normalizePlaybackState toLowerCase (Some s) = ''playing'') \<and>
   (toLowerCase s = ''paused'' \<or> toLowerCase s = ''paused_playback''
      \<longrightarrow> normalizePlaybackState toLowerCase (Some s) = ''paused'') \<and>
   (toLowerCase s = ''stopped''
      \<longrightarrow> normalizePlaybackState toLowerCase (Some s) = ''stopped'') \<and>
   (toLowerCase s = ''transitioning''
      \<longrightarrow> normalizePlaybackState toLowerCase (Some s) = ''transitioning'') \<and>
   (toLowerCase s \<notin> {''playing'', ''paused'', ''paused_playback'', ''stopped'', ''transitioning''}
      \<longrightarrow> normalizePlaybackState toLowerCase (Some s) = ''unknown'') \<and>
   normalizePlaybackState_exact None = ''unknown'' \<and>
   normalizePlaybackState_exact (Some ''playing'') = ''playing'' \<and>
   normalizePlaybackState_exact (Some ''paused'') = ''paused'' \<and>
   normalizePlaybackState_exact (Some ''stopped'') = ''stopped'' \<and>
   normalizePlaybackState_exact (Some ''transitioning'') = ''transitioning'' \<and>
   (s \<notin> {''playing'', ''paused'', ''stopped'', ''transitioning''}
      \<longrightarrow> normalizePlaybackState_exact (Some s) = ''unknown'')"
proof -
  have lower: "normalizePlaybackState toLowerCase None = ''unknown''"
    "toLowerCase s = ''playing'' \<longrightarrow> normalizePlaybackState toLowerCase (Some s) = ''playing''"
    "toLowerCase s = ''paused'' \<or> toLowerCase s = ''paused_playback''
      \<longrightarrow> normalizePlaybackState toLowerCase (Some s) = ''paused''"
    "toLowerCase s = ''stopped'' \<longrightarrow> normalizePlaybackState toLowerCase (Some s) = ''stopped''"
    "toLowerCase s = ''transitioning''
      \<longrightarrow> normalizePlaybackState toLowerCase (Some s) = ''transitioning''"
    "toLowerCase s \<notin> {''playing'', ''paused'', ''paused_playback'', ''stopped'', ''transitioning''}
      \<longrightarrow> normalizePlaybackState toLowerCase (Some s) = ''unknown''"
    by (simp_all add: normalizePlaybackState_def)
  have exact: "normalizePlaybackState_exact None = ''unknown''"
    "normalizePlaybackState_exact (Some ''playing'') = ''playing''"
    "normalizePlaybackState_exact (Some ''paused'') = ''paused''"
    "normalizePlaybackState_exact (Some ''stopped'') = ''stopped''"
    "normalizePlaybackState_exact (Some ''transitioning'') = ''transitioning''"
    "s \<notin> {''playing'', ''paused'', ''stopped'', ''transitioning''}
      \<longrightarrow> normalizePlaybackState_exact (Some s) = ''unknown''"
    by (simp_all add: normalizePlaybackState_exact_def)
  from lower exact show ?thesis by blast
qed

theorem normalize_both_controllers_witness:
  "toLowerCase_ascii ''PLAYING'' = ''playing'' \<and>
   normalizePlaybackState toLowerCase_ascii (Some ''PLAYING'') = ''playing'' \<and>
   toLowerCase_ascii ''PAUSED_PLAYBACK'' = ''paused_playback'' \<and>
   normalizePlaybackState toLowerCase_ascii (Some ''PAUSED_PLAYBACK'') = ''paused'' \<and>
   toLowerCase_ascii ''Stopped'' = ''stopped'' \<and>
   normalizePlaybackState toLowerCase_ascii (Some ''Stopped'') = ''stopped'' \<and>
   toLowerCase_ascii ''TRANSITIONING'' = ''transitioning'' \<and>
   normalizePlaybackState toLowerCase_ascii (Some ''TRANSITIONING'') = ''transitioning'' \<and>
   toLowerCase_ascii ''Buffering'' = ''buffering'' \<and>
   normalizePlaybackState toLowerCase_ascii (Some ''Buffering'') = ''unknown'' \<and>
   normalizePlaybackState_exact (Some ''PLAYING'') = ''unknown''"
proof -
  have l: "toLowerCase_ascii ''PLAYING'' = ''playing''"
    "toLowerCase_ascii ''PAUSED_PLAYBACK'' = ''paused_playback''"
    "toLowerCase_ascii ''Stopped'' = ''stopped''"
    "toLowerCase_ascii ''TRANSITIONING'' = ''transitioning''"
    "toLowerCase_ascii ''Buffering'' = ''buffering''"
    by (simp_all add: toLowerCase_ascii_def toLowerCase_char_def)
  have other: "toLowerCase_ascii ''Buffering'' \<notin>
      {''playing'', ''paused'', ''paused_playback'', ''stopped'', ''transitioning''}"
    by (simp add: l)
  have upper: "''PLAYING'' \<notin> {''playing'', ''paused'', ''stopped'', ''transitioning''}"
    by simp
  from normalize_both_controllers [of toLowerCase_ascii "''PLAYING''"] l(1) upper
  have 1: "normalizePlaybackState toLowerCase_ascii (Some ''PLAYING'') = ''playing''"
    and 6: "normalizePlaybackState_exact (Some ''PLAYING'') = ''unknown''" by blast+
  from normalize_both_controllers [of toLowerCase_ascii "''PAUSED_PLAYBACK''"] l(2)
  have 2: "normalizePlaybackState toLowerCase_ascii (Some ''PAUSED_PLAYBACK'') = ''paused''"
    by blast
  from normalize_both_controllers [of toLowerCase_ascii "''Stopped''"] l(3)
  have 3: "normalizePlaybackState toLowerCase_ascii (Some ''Stopped'') = ''stopped''" by blast
  from normalize_both_controllers [of toLowerCase_ascii "''TRANSITIONING''"] l(4)
  have 4: "normalizePlaybackState toLowerCase_ascii (Some ''TRANSITIONING'') = ''transitioning''"
    by blast
  from normalize_both_controllers [of toLowerCase_ascii "''Buffering''"] other
  have 5: "normalizePlaybackState toLowerCase_ascii (Some ''Buffering'') = ''unknown''" by blast
  from l 1 2 3 4 5 6 show ?thesis by blast
qed

section \<open>Playback state events\<close>

lemma switchInput_deviceManager:
  "deviceManager (FusionController_switchInput toLowerCase success deviceId inputSource pl) =
     deviceManager pl"
  by (simp add: FusionController_switchInput_def perform_def Let_def split: option.splits)

lemma switchInput_nmea2000Handler:
  "nmea2000Handler (FusionController_switchInput toLowerCase success deviceId inputSource pl) =
     nmea2000Handler pl"
  by (simp add: FusionController_switchInput_def perform_def Let_def split: option.splits)

lemma switchInput_effects:
  "effects (FusionController_switchInput toLowerCase success deviceId inputSource pl) =
     effects pl @
     (case Map_get (fusionDevices pl) deviceId of
        None \<Rightarrow> []
      | Some _ \<Rightarrow> (case inputMap (toLowerCase inputSource) of
                     None \<Rightarrow> []
                   | Some v \<Rightarrow> [setInput_command deviceId v]))"
  by (simp add: FusionController_switchInput_def perform_def Let_def split: option.splits)

text \<open>
  What the handler does for an event whose device ref resolves to an enabled pair: it
  publishes the playback state (after the input-switch command when the state is
  \<open>playing\<close>, and followed by the NMEA 2000 update when that handler is set), whatever the
  pair's \<open>volumeSync\<close> setting, and it returns the device manager as it was. A source
  volume event for a pair with \<open>volumeSync\<close> off does nothing.
\<close>

lemma playback_event_effects:
  assumes "getPairBySonosDevice (deviceManager pl) device = Some p"
  shows "deviceManager (handlePlaybackStateChanged toLowerCase now success device state pl) =
           deviceManager pl"
    and "effects (handlePlaybackStateChanged toLowerCase now success device state pl) =
           effects pl @
           (if state = ''playing''
            then (case Map_get (fusionDevices pl) (fusionDevice p) of
                    None \<Rightarrow> []
                  | Some _ \<Rightarrow> (case inputMap (toLowerCase (fusionInput p)) of
                                 None \<Rightarrow> []
                               | Some v \<Rightarrow> [setInput_command (fusionDevice p) v]))
            else []) @
           [HandleMessage now (''entertainment.audio.'' @ template (name p) @ ''.playbackState'')
              (StrValue state)] @
           (if nmea2000Handler pl then [NmeaUpdatePlaybackState (name p) state] else [])"
    and "\<not> volumeSync p \<Longrightarrow> handleVolumeChanged now success device volume pl = pl"
  using assms
  by (simp_all add: handlePlaybackStateChanged_def handleVolumeChanged_def Let_def perform_def
      switchInput_deviceManager switchInput_effects switchInput_nmea2000Handler)

text \<open>
  The device manager can record activity: \<^verbatim>\<open>updatePairActivity\<close> stores the stamped
  record on the pair, and \<^verbatim>\<open>getDeviceStatistics\<close> reads it. No handler of the plugin calls
  it.
\<close>

lemma updatePairActivity_records:
  assumes "Map_get (devicePairs dm) nm = Some p"
  shows "Map_get (devicePairs (updatePairActivity now nm (ty, d) dm)) nm =
           Some (p\<lparr>lastActivity := Some \<lparr>timestamp = now, activityType = ty, data = d\<rparr>\<rparr>)"
  using assms by (simp add: updatePairActivity_def Map_get_Map_set_same)

text \<open>
  C3. The claim requires the handler to record activity on the pair, setting its
  \<open>lastActivity\<close>, and to publish derived status. The handler publishes the status and
  records nothing: after the playback event \<open>paused\<close> for the device of the enabled pair
  \<open>salon\<close> the status delta and the NMEA 2000 update are issued, the device manager is
  exactly as before, and the pair's \<open>lastActivity\<close> is still absent, so that the
  statistics count no active pair and list no recent activity.
\<close>

theorem playback_event_records_no_activity:
  "getPairBySonosDevice (deviceManager salon_plugin) (Some ''10.0.0.5:1400'') = Some salon \<and>
   effects (handlePlaybackStateChanged toLowerCase_ascii 1700000000000 True
              (Some ''10.0.0.5:1400'') ''paused'' salon_plugin) =
     [HandleMessage 1700000000000 ''entertainment.audio.salon.playbackState''
        (StrValue ''paused''),
      NmeaUpdatePlaybackState (Some ''salon'') ''paused''] \<and>
   deviceManager (handlePlaybackStateChanged toLowerCase_ascii 1700000000000 True
                    (Some ''10.0.0.5:1400'') ''paused'' salon_plugin) =
     \<lparr>devicePairs = [(Some ''salon'', salon)], emitted = [], errors = []\<rparr> \<and>
   lastActivity salon = None \<and>
   getDeviceStatistics 1700000001000
     (deviceManager (handlePlaybackStateChanged toLowerCase_ascii 1700000000000 True
                       (Some ''10.0.0.5:1400'') ''paused'' salon_plugin)) =
     \<lparr>totalPairs = 1, enabledPairs = 1, activePairs = 0, recentActivity = []\<rparr>"
  by (simp add: handlePlaybackStateChanged_def getPairBySonosDevice_def salon_plugin_def
      salon_only_def Map_values_def salon_def perform_def Let_def template_def
      getDeviceStatistics_def getEnabledPairs_def stats_step_def orderBy_timestamp_desc_def)

section \<open>Operations on a name that is not in the registry\<close>

text \<open>
  C4, as stated: an update of an unknown name fails with an error. It does not: on the
  empty registry, \<^verbatim>\<open>updateDevicePair('ghost', {})\<close> returns normally, having logged one
  message through \<^verbatim>\<open>app.error\<close>.
\<close>

theorem update_unknown_name_counterexample:
  "updateDevicePair (Some ''ghost'') no_updates constructor =
     Inr \<lparr>devicePairs = [], emitted = [], errors = [''Device pair not found: ghost'']\<rparr>"
  by (simp add: updateDevicePair_def Map_get_def constructor_def app_error_def template_def)

text \<open>
  C4, amended. For every registry state and every name that is not a key of the registry,
  \<^verbatim>\<open>removeDevicePair\<close> returns normally and leaves the whole state unchanged, and
  \<^verbatim>\<open>updateDevicePair\<close> also returns normally: it raises no error, leaves the registry and
  the emitted events unchanged and logs the message \<open>Device pair not found: <name>\<close>
  through \<^verbatim>\<open>app.error\<close>.
\<close>

theorem unknown_name_remove_and_update:
  assumes "nm \<notin> fst ` set (devicePairs dm)"
  shows "removeDevicePair nm dm = Inr dm \<and>
         (\<exists>dm'. updateDevicePair nm updates dm = Inr dm' \<and>
                 devicePairs dm' = devicePairs dm \<and>
                 emitted dm' = emitted dm \<and>
                 errors dm' = errors dm @ [''Device pair not found: '' @ template nm])"
proof -
  from assms have "Map_get (devicePairs dm) nm = None"
    by (simp add: Map_get_None_iff)
  then show ?thesis
    by (simp add: removeDevicePair_def updateDevicePair_def app_error_def)
qed

theorem unknown_name_remove_and_update_witness:
  "Some ''deck'' \<notin> fst ` set (devicePairs salon_only) \<and>
   removeDevicePair (Some ''deck'') salon_only = Inr salon_only \<and>
   (\<exists>dm'. updateDevicePair (Some ''deck'') (no_updates\<lparr>upd_enabled := Some False\<rparr>)
             salon_only = Inr dm' \<and>
           devicePairs dm' = [(Some ''salon'', salon)] \<and>
           emitted dm' = [] \<and>
           errors dm' = [''Device pair not found: deck''])"
proof -
  have absent: "Some ''deck'' \<notin> fst ` set (devicePairs salon_only)"
    by (simp add: salon_only_def)
  from unknown_name_remove_and_update [OF absent, of "no_updates\<lparr>upd_enabled := Some False\<rparr>"]
  show ?thesis
    using absent by (simp add: salon_only_def template_def)
qed

section \<open>Association conflicts\<close>

lemma find_first_filter: "find P xs = (case filter P xs of [] \<Rightarrow> None | x # _ \<Rightarrow> Some x)"
  by (induction xs) auto

lemma find_among_enabled:
  "find (\<lambda>p. P p \<and> Q p) (map g (filter (\<lambda>e. Q (g e)) xs)) = find (\<lambda>p. P p \<and> Q p) (map g xs)"
  by (induction xs) auto

lemma find_conflict_take:
  "(case find P xs of None \<Rightarrow> [] | Some p \<Rightarrow> [f p]) = map f (take 1 (filter P xs))"
  by (simp add: find_first_filter split: list.splits)

lemma conflicts_eq:
  "conflicts (validateDeviceAssociation dm s f) =
     map (sonos_conflict s) (take 1 (filter (\<lambda>p. sonosDevice p = s \<and> enabled p) (getAllPairs dm))) @
     map (fusion_conflict f) (take 1 (filter (\<lambda>p. fusionDevice p = f \<and> enabled p) (getAllPairs dm)))"
proof -
  have "conflicts (validateDeviceAssociation dm s f) =
      (case getPairBySonosDevice dm s of None \<Rightarrow> [] | Some p \<Rightarrow> [sonos_conflict s p]) @
      (case getPairByFusionDevice dm f of None \<Rightarrow> [] | Some p \<Rightarrow> [fusion_conflict f p])"
    by (simp add: validateDeviceAssociation_def Let_def split: option.splits)
  then show ?thesis
    by (simp add: getPairBySonosDevice_def getPairByFusionDevice_def getAllPairs_def
        find_conflict_take)
qed

lemma valid_eq:
  "valid (validateDeviceAssociation dm s f) = (conflicts (validateDeviceAssociation dm s f) = [])"
  by (simp add: validateDeviceAssociation_def Let_def)

text \<open>
  C5, as stated: one conflict reason per colliding enabled pair. On the registry that
  holds the single enabled pair \<open>salon\<close>, validating salon's own two device refs finds one
  colliding pair and reports two conflicts, both naming it.
\<close>

theorem validate_two_conflicts_one_pair_counterexample:
  "filter (\<lambda>p. enabled p \<and> (sonosDevice p = Some ''10.0.0.5:1400'' \<or>
                             fusionDevice p = Some ''10.0.0.9:80''))
     (getAllPairs salon_only) = [salon] \<and>
   validateDeviceAssociation salon_only (Some ''10.0.0.5:1400'') (Some ''10.0.0.9:80'') =
     \<lparr>valid = False,
      conflicts = [''Sonos device 10.0.0.5:1400 is already paired with salon'',
                   ''Fusion device 10.0.0.9:80 is already paired with salon'']\<rparr>"
  by (simp add: validateDeviceAssociation_def getPairBySonosDevice_def
      getPairByFusionDevice_def getAllPairs_def Map_values_def salon_only_def salon_def
      sonos_conflict_def fusion_conflict_def template_def)

text \<open>
  C5, amended. For every registry state and every candidate (sourceRef, ampRef), the
  result is valid:false exactly when some enabled pair references sourceRef or some enabled
  pair references ampRef. The conflicts hold one reason per device ref that collides, not
  one per pair: the reason for sourceRef, naming the first enabled pair (in insertion
  order) that references it, followed by the reason for ampRef, naming the first enabled
  pair that references that. Disabled pairs never contribute: dropping them from the
  registry gives the same result.
\<close>

theorem validate_conflicts_per_device:
  "valid (validateDeviceAssociation dm s f) =
     (\<not> (\<exists>p \<in> set (getAllPairs dm). enabled p \<and> (sonosDevice p = s \<or> fusionDevice p = f))) \<and>
   conflicts (validateDeviceAssociation dm s f) =
     map (sonos_conflict s) (take 1 (filter (\<lambda>p. sonosDevice p = s \<and> enabled p) (getAllPairs dm))) @
     map (fusion_conflict f) (take 1 (filter (\<lambda>p. fusionDevice p = f \<and> enabled p) (getAllPairs dm))) \<and>
   validateDeviceAssociation
     (dm\<lparr>devicePairs := filter (\<lambda>e. enabled (snd e)) (devicePairs dm)\<rparr>) s f =
     validateDeviceAssociation dm s f"
proof (intro conjI)
  let ?ps = "getAllPairs dm"
  let ?S = "filter (\<lambda>p. sonosDevice p = s \<and> enabled p) ?ps"
  let ?F = "filter (\<lambda>p. fusionDevice p = f \<and> enabled p) ?ps"
  show c: "conflicts (validateDeviceAssociation dm s f) =
      map (sonos_conflict s) (take 1 ?S) @ map (fusion_conflict f) (take 1 ?F)"
    by (rule conflicts_eq)
  have "valid (validateDeviceAssociation dm s f) = (?S = [] \<and> ?F = [])"
    by (simp add: valid_eq c)
  also have "\<dots> = (\<not> (\<exists>p \<in> set ?ps. enabled p \<and> (sonosDevice p = s \<or> fusionDevice p = f)))"
    by (auto simp: filter_empty_conv)
  finally show "valid (validateDeviceAssociation dm s f) =
      (\<not> (\<exists>p \<in> set ?ps. enabled p \<and> (sonosDevice p = s \<or> fusionDevice p = f)))" .
  have flt: "\<And>P. find (\<lambda>p. P p \<and> enabled p) (map snd (filter (\<lambda>e. enabled (snd e)) (devicePairs dm)))
      = find (\<lambda>p. P p \<and> enabled p) (map snd (devicePairs dm))"
    by (rule find_among_enabled)
  show "validateDeviceAssociation
     (dm\<lparr>devicePairs := filter (\<lambda>e. enabled (snd e)) (devicePairs dm)\<rparr>) s f =
     validateDeviceAssociation dm s f"
    using flt [of "\<lambda>p. sonosDevice p = s"] flt [of "\<lambda>p. fusionDevice p = f"]
    by (simp add: validateDeviceAssociation_def getPairBySonosDevice_def
        getPairByFusionDevice_def Map_values_def)
qed

theorem validate_conflicts_per_device_witness:
  "validateDeviceAssociation salon_and_deck (Some ''10.0.0.5:1400'') (Some ''10.0.0.12:80'') =
     \<lparr>valid = False,
      conflicts = [''Sonos device 10.0.0.5:1400 is already paired with salon'']\<rparr>"
proof -
  have ps: "getAllPairs salon_and_deck = [salon, deck]"
    by (simp add: getAllPairs_def Map_values_def salon_and_deck_def)
  from validate_conflicts_per_device
    [of salon_and_deck "Some ''10.0.0.5:1400''" "Some ''10.0.0.12:80''"]
  have "valid (validateDeviceAssociation salon_and_deck (Some ''10.0.0.5:1400'')
                 (Some ''10.0.0.12:80'')) = False \<and>
        conflicts (validateDeviceAssociation salon_and_deck (Some ''10.0.0.5:1400'')
                 (Some ''10.0.0.12:80'')) =
          [''Sonos device 10.0.0.5:1400 is already paired with salon'']"
    by (simp add: ps salon_def deck_def sonos_conflict_def template_def)
  then show ?thesis
    by (cases "validateDeviceAssociation salon_and_deck (Some ''10.0.0.5:1400'')
                 (Some ''10.0.0.12:80'')") simp
qed

section \<open>The name of a stored pair\<close>

lemma keys_are_names_Map_set:
  assumes "list_all (\<lambda>(k, p). name p = k) m" and "name v = k"
  shows "list_all (\<lambda>(k, p). name p = k) (Map_set k v m)"
  using assms set_Map_set_subset [of k v m] by (auto simp: list_all_iff)

lemma keys_are_names_constructor: "keys_are_names constructor"
  by (simp add: keys_are_names_def constructor_def)

lemma keys_are_names_add:
  assumes "keys_are_names dm" and "addDevicePair toLowerCase config dm = Inr dm'"
  shows "keys_are_names dm'"
  using assms
  by (auto simp: addDevicePair_def keys_are_names_def Let_def emit_def
      intro!: keys_are_names_Map_set split: option.splits if_splits)

lemma keys_are_names_remove:
  assumes "keys_are_names dm" and "removeDevicePair nm dm = Inr dm'"
  shows "keys_are_names dm'"
  using assms set_Map_delete_subset [of nm "devicePairs dm"]
  by (auto simp: removeDevicePair_def keys_are_names_def emit_def list_all_iff
      split: option.splits)

text \<open>Every update, of a known name or not, leaves the keys of the registry and their order.\<close>

lemma update_keeps_keys:
  "\<exists>dm'. updateDevicePair nm updates dm = Inr dm' \<and>
         map fst (devicePairs dm') = map fst (devicePairs dm)"
proof (cases "Map_get (devicePairs dm) nm")
  case None
  then show ?thesis
    by (simp add: updateDevicePair_def app_error_def)
next
  case (Some p)
  from Map_get_Some_key [OF Some]
  have "map fst (Map_set nm (Object_assign p updates) (devicePairs dm)) = map fst (devicePairs dm)"
    by (rule keys_Map_set_present)
  with Some show ?thesis
    by (simp add: updateDevicePair_def Let_def emit_def)
qed

text \<open>
  An update that carries no \<open>name\<close> field leaves the name of the stored pair, and keeps
  every key equal to its pair's name when that held before.
\<close>

lemma update_without_name_keeps_name:
  assumes "Map_get (devicePairs dm) nm = Some p" and "upd_name updates = None"
  shows "\<exists>dm' p'. updateDevicePair nm updates dm = Inr dm' \<and>
           Map_get (devicePairs dm') nm = Some p' \<and>
           name p' = name p \<and>
           (keys_are_names dm \<longrightarrow> keys_are_names dm')"
proof -
  define p' where "p' = Object_assign p updates"
  define dm1 where "dm1 = dm\<lparr>devicePairs := Map_set nm p' (devicePairs dm)\<rparr>"
  define dm' where "dm' = (if \<not> enabled p \<and> enabled p' then emit (DevicePairReady p') dm1
                   else if enabled p \<and> \<not> enabled p' then emit (DevicePairRemoved p') dm1
                   else dm1)"
  have r: "updateDevicePair nm updates dm = Inr dm'"
    using assms(1) by (simp add: updateDevicePair_def Let_def p'_def dm1_def dm'_def)
  have pairs: "devicePairs dm' = Map_set nm p' (devicePairs dm)"
    by (simp add: dm'_def dm1_def emit_def)
  have get: "Map_get (devicePairs dm') nm = Some p'"
    by (simp add: pairs Map_get_Map_set_same)
  have nm: "name p' = name p"
    using assms(2) by (simp add: p'_def Object_assign_def)
  have inv: "keys_are_names dm \<longrightarrow> keys_are_names dm'"
  proof
    assume k: "keys_are_names dm"
    with Map_get_Some_mem [OF assms(1)] have "name p = nm"
      by (auto simp: keys_are_names_def list_all_iff)
    with nm have "name p' = nm" by simp
    with k show "keys_are_names dm'"
      unfolding keys_are_names_def pairs by (intro keys_are_names_Map_set)
  qed
  from r get nm inv show ?thesis by blast
qed

text \<open>
  C6. The claim requires the name of a stored pair to be the same after every update and
  every map key to equal its pair's name. \<^verbatim>\<open>addDevicePair\<close> stores every pair under its
  name, but \<^verbatim>\<open>updateDevicePair\<close> copies a \<open>name\<close> field of the updates onto the pair
  without touching the key: on the registry that holds \<open>salon\<close> under its name,
  \<^verbatim>\<open>updateDevicePair('salon', {name: 'deck'})\<close> leaves a pair named \<open>deck\<close> under the key
  \<open>salon\<close>, which \<^verbatim>\<open>getPairByName('deck')\<close> does not find.
\<close>

theorem update_renames_stored_pair:
  "keys_are_names salon_only \<and>
   updateDevicePair (Some ''salon'') (no_updates\<lparr>upd_name := Some (Some ''deck'')\<rparr>) salon_only =
     Inr salon_renamed \<and>
   devicePairs salon_renamed = [(Some ''salon'', salon\<lparr>name := Some ''deck''\<rparr>)] \<and>
   getPairByName salon_renamed (Some ''deck'') = None \<and>
   \<not> keys_are_names salon_renamed"
  by (simp add: updateDevicePair_def Map_get_def salon_only_def Let_def Object_assign_def
      no_updates_def salon_def salon_renamed_def getPairByName_def keys_are_names_def)

section \<open>Enable transitions of an update\<close>

text \<open>
  C7. For a stored pair, an update stores the pair with every field that the update
  carries overwritten and the others kept. When the update takes \<open>enabled\<close> from false to
  true it emits exactly one devicePairReady event (carrying the updated pair), when it
  takes it from true to false it emits exactly one devicePairRemoved event, and when it
  leaves \<open>enabled\<close> as it was (no \<open>enabled\<close> field, or the same value) it emits nothing;
  events emitted earlier are kept.
\<close>

theorem update_enable_transition_events:
  assumes "Map_get (devicePairs dm) nm = Some p"
  shows "\<exists>dm' p'. updateDevicePair nm updates dm = Inr dm' \<and>
           Map_get (devicePairs dm') nm = Some p' \<and>
           name p' = (case upd_name updates of None \<Rightarrow> name p | Some v \<Rightarrow> v) \<and>
           sonosDevice p' =
             (case upd_sonosDevice updates of None \<Rightarrow> sonosDevice p | Some v \<Rightarrow> v) \<and>
           fusionDevice p' =
             (case upd_fusionDevice updates of None \<Rightarrow> fusionDevice p | Some v \<Rightarrow> v) \<and>
           fusionInput p' =
             (case upd_fusionInput updates of None \<Rightarrow> fusionInput p | Some v \<Rightarrow> v) \<and>
           volumeSync p' =
             (case upd_volumeSync updates of None \<Rightarrow> volumeSync p | Some v \<Rightarrow> v) \<and>
           enabled p' = (case upd_enabled updates of None \<Rightarrow> enabled p | Some b \<Rightarrow> b) \<and>
           lastActivity p' =
             (case upd_lastActivity updates of None \<Rightarrow> lastActivity p | Some v \<Rightarrow> v) \<and>
           status p' = (case upd_status updates of None \<Rightarrow> status p | Some v \<Rightarrow> v) \<and>
           emitted dm' = emitted dm @
             (case upd_enabled updates of
                None \<Rightarrow> []
              | Some b \<Rightarrow>
                  if \<not> enabled p \<and> b then [DevicePairReady p']
                  else if enabled p \<and> \<not> b then [DevicePairRemoved p']
                  else [])"
proof -
  define p' where "p' = Object_assign p updates"
  define dm1 where "dm1 = dm\<lparr>devicePairs := Map_set nm p' (devicePairs dm)\<rparr>"
  define dm' where "dm' = (if \<not> enabled p \<and> enabled p' then emit (DevicePairReady p') dm1
                   else if enabled p \<and> \<not> enabled p' then emit (DevicePairRemoved p') dm1
                   else dm1)"
  have r: "updateDevicePair nm updates dm = Inr dm'"
    using assms by (simp add: updateDevicePair_def Let_def p'_def dm1_def dm'_def)
  have g: "Map_get (devicePairs dm') nm = Some p'"
    by (simp add: dm'_def dm1_def emit_def Map_get_Map_set_same)
  have f: "name p' = (case upd_name updates of None \<Rightarrow> name p | Some v \<Rightarrow> v)"
    "sonosDevice p' = (case upd_sonosDevice updates of None \<Rightarrow> sonosDevice p | Some v \<Rightarrow> v)"
    "fusionDevice p' = (case upd_fusionDevice updates of None \<Rightarrow> fusionDevice p | Some v \<Rightarrow> v)"
    "fusionInput p' = (case upd_fusionInput updates of None \<Rightarrow> fusionInput p | Some v \<Rightarrow> v)"
    "volumeSync p' = (case upd_volumeSync updates of None \<Rightarrow> volumeSync p | Some v \<Rightarrow> v)"
    "enabled p' = (case upd_enabled updates of None \<Rightarrow> enabled p | Some b \<Rightarrow> b)"
    "lastActivity p' = (case upd_lastActivity updates of None \<Rightarrow> lastActivity p | Some v \<Rightarrow> v)"
    "status p' = (case upd_status updates of None \<Rightarrow> status p | Some v \<Rightarrow> v)"
    by (simp_all add: p'_def Object_assign_def)
  have e: "emitted dm' = emitted dm @
             (case upd_enabled updates of
                None \<Rightarrow> []
              | Some b \<Rightarrow>
                  if \<not> enabled p \<and> b then [DevicePairReady p']
                  else if enabled p \<and> \<not> b then [DevicePairRemoved p']
                  else [])"
    using f(6) by (simp add: dm'_def dm1_def emit_def split: option.splits)
  from r g f e show ?thesis by blast
qed

theorem update_enable_transition_events_witness:
  "Map_get (devicePairs salon_and_deck) (Some ''salon'') = Some salon \<and>
   Map_get (devicePairs salon_and_deck) (Some ''deck'') = Some deck \<and>
   enabled salon \<and> \<not> enabled deck \<and>
   (\<exists>dm' p'. updateDevicePair (Some ''salon'') (no_updates\<lparr>upd_enabled := Some False\<rparr>)
               salon_and_deck = Inr dm' \<and>
      Map_get (devicePairs dm') (Some ''salon'') = Some p' \<and> \<not> enabled p' \<and>
      name p' = Some ''salon'' \<and>
      emitted dm' = [DevicePairRemoved p']) \<and>
   (\<exists>dm' p'. updateDevicePair (Some ''deck'') (no_updates\<lparr>upd_enabled := Some True\<rparr>)
               salon_and_deck = Inr dm' \<and>
      Map_get (devicePairs dm') (Some ''deck'') = Some p' \<and> enabled p' \<and>
      name p' = Some ''deck'' \<and>
      emitted dm' = [DevicePairReady p']) \<and>
   (\<exists>dm' p'. updateDevicePair (Some ''salon'') (no_updates\<lparr>upd_status := Some ''busy''\<rparr>)
               salon_and_deck = Inr dm' \<and>
      Map_get (devicePairs dm') (Some ''salon'') = Some p' \<and> enabled p' \<and>
      status p' = ''busy'' \<and>
      emitted dm' = [])"
proof -
  have s: "Map_get (devicePairs salon_and_deck) (Some ''salon'') = Some salon"
    by (simp add: salon_and_deck_def Map_get_def)
  have d: "Map_get (devicePairs salon_and_deck) (Some ''deck'') = Some deck"
    by (simp add: salon_and_deck_def Map_get_def)
  have on: "enabled salon" by (simp add: salon_def)
  have off: "\<not> enabled deck" by (simp add: deck_def)
  have none: "emitted salon_and_deck = []" by (simp add: salon_and_deck_def)
  have first: "\<exists>dm' p'. updateDevicePair (Some ''salon'')
        (no_updates\<lparr>upd_enabled := Some False\<rparr>) salon_and_deck = Inr dm' \<and>
      Map_get (devicePairs dm') (Some ''salon'') = Some p' \<and> \<not> enabled p' \<and>
      name p' = Some ''salon'' \<and>
      emitted dm' = [DevicePairRemoved p']"
    using update_enable_transition_events [OF s, of "no_updates\<lparr>upd_enabled := Some False\<rparr>"]
      on none
    by (auto simp: no_updates_def salon_def)
  have second: "\<exists>dm' p'. updateDevicePair (Some ''deck'')
        (no_updates\<lparr>upd_enabled := Some True\<rparr>) salon_and_deck = Inr dm' \<and>
      Map_get (devicePairs dm') (Some ''deck'') = Some p' \<and> enabled p' \<and>
      name p' = Some ''deck'' \<and>
      emitted dm' = [DevicePairReady p']"
    using update_enable_transition_events [OF d, of "no_updates\<lparr>upd_enabled := Some True\<rparr>"]
      off none
    by (auto simp: no_updates_def deck_def)
  have third: "\<exists>dm' p'. updateDevicePair (Some ''salon'')
        (no_updates\<lparr>upd_status := Some ''busy''\<rparr>) salon_and_deck = Inr dm' \<and>
      Map_get (devicePairs dm') (Some ''salon'') = Some p' \<and> enabled p' \<and>
      status p' = ''busy'' \<and>
      emitted dm' = []"
    using update_enable_transition_events [OF s, of "no_updates\<lparr>upd_status := Some ''busy''\<rparr>"]
      on none
    by (auto simp: no_updates_def salon_def)
  from s d on off first second third show ?thesis by simp
qed

section \<open>Export followed by import\<close>






text \<open>
  Two more ways in which a registry does not survive the round trip: two stored pairs with
  the same name field (after a rename by update) are merged into one entry, and an input
  selector stored in upper case (by update) comes back in lower case.
\<close>

lemma export_import_merges_equal_names:
  "(case importConfiguration toLowerCase_ascii
           (exportConfiguration
              \<lparr>devicePairs = [(Some ''salon'', salon), (Some ''deck'', deck\<lparr>name := Some ''salon''\<rparr>)],
               emitted = [], errors = []\<rparr>)
           constructor of
      Inl e \<Rightarrow> []
    | Inr dm' \<Rightarrow> map (\<lambda>e. (fst e, sonosDevice (snd e), fusionDevice (snd e))) (devicePairs dm')) =
   [(Some ''salon'', Some ''10.0.0.5:1400'', Some ''10.0.0.12:80'')]"
  by (simp add: importConfiguration_def exportConfiguration_def Map_values_def export_pair_def
      constructor_def validatePairConfig_def falsy_def toLowerCase_ascii_def toLowerCase_char_def
      validInputs_def addDevicePair_def Let_def emit_def salon_def deck_def)

lemma export_import_lower_cases_input:
  "(case importConfiguration toLowerCase_ascii
           (exportConfiguration
              \<lparr>devicePairs = [(Some ''cabin'', cabin)], emitted = [], errors = []\<rparr>)
           constructor of
      Inl e \<Rightarrow> []
    | Inr dm' \<Rightarrow> map (\<lambda>e. (fst e, fusionInput (snd e))) (devicePairs dm')) =
   [(Some ''cabin'', ''aux2'')] \<and>
   fusionInput cabin = ''AUX2''"
  by (simp add: importConfiguration_def exportConfiguration_def Map_values_def export_pair_def
      constructor_def validatePairConfig_def falsy_def toLowerCase_ascii_def toLowerCase_char_def
      validInputs_def addDevicePair_def Let_def emit_def cabin_def)



section \<open>Statistics\<close>

lemma fold_stats_step:
  "fold (stats_step now) ps (n, acc) =
     (n + length (filter (spec_recently_active now) ps), acc @ spec_activity_records ps)"
proof (induction ps arbitrary: n acc)
  case Nil
  show ?case by (simp add: spec_activity_records_def)
next
  case (Cons p ps)
  show ?case
  proof (cases "lastActivity p")
    case None
    then have "stats_step now p (n, acc) = (n, acc)"
      by (simp add: stats_step_def)
    with None Cons.IH [of n acc] show ?thesis
      by (simp add: spec_activity_records_def spec_recently_active_def)
  next
    case (Some a)
    let ?e = "\<lparr>pairName = name p, entry_timestamp = timestamp a, entry_type = activityType a\<rparr>"
    let ?n = "if now - timestamp a < 300000 then n + 1 else n"
    from Some have "stats_step now p (n, acc) = (?n, acc @ [?e])"
      by (simp add: stats_step_def)
    with Some Cons.IH [of ?n "acc @ [?e]"] show ?thesis
      by (simp add: spec_activity_records_def spec_recently_active_def)
  qed
qed

lemma orderBy_timestamp_desc_sorted:
  "sorted_wrt (\<lambda>a b. entry_timestamp b \<le> entry_timestamp a) (orderBy_timestamp_desc xs)"
proof -
  have "sorted (map (\<lambda>e. - entry_timestamp e) (sort_key (\<lambda>e. - entry_timestamp e) xs))"
    by (rule sorted_sort_key)
  then show ?thesis
    by (simp add: orderBy_timestamp_desc_def sorted_map)
qed

lemma orderBy_timestamp_desc_stable:
  "filter (\<lambda>e. entry_timestamp e = t) (orderBy_timestamp_desc xs) =
   filter (\<lambda>e. entry_timestamp e = t) xs"
proof -
  have "filter (\<lambda>e. - entry_timestamp e = - t) (sort_key (\<lambda>e. - entry_timestamp e) xs) =
        filter (\<lambda>e. - entry_timestamp e = - t) xs"
    by (rule sort_key_stable)
  then show ?thesis
    by (simp add: orderBy_timestamp_desc_def)
qed

text \<open>
  C9. For every registry state and every current time, \<open>recentActivity\<close> has at most 10
  entries and is sorted descending by timestamp; it is the first 10 entries of a list that
  is sorted descending, holds exactly the activity records of the pairs that have a
  \<open>lastActivity\<close>, and keeps records with equal timestamps in registry order (a stable
  sort); so every entry comes from a pair with a \<open>lastActivity\<close>. \<open>activePairs\<close> is the
  number of pairs whose \<open>lastActivity\<close> timestamp is less than 300000 ms before now
  (\<open>now - timestamp < 300000\<close>).
\<close>

theorem statistics_recent_and_active:
  "length (recentActivity (getDeviceStatistics now dm)) \<le> 10 \<and>
   sorted_wrt (\<lambda>a b. entry_timestamp b \<le> entry_timestamp a)
     (recentActivity (getDeviceStatistics now dm)) \<and>
   (\<exists>L. recentActivity (getDeviceStatistics now dm) = take 10 L \<and>
        sorted_wrt (\<lambda>a b. entry_timestamp b \<le> entry_timestamp a) L \<and>
        (\<forall>t. filter (\<lambda>e. entry_timestamp e = t) L =
             filter (\<lambda>e. entry_timestamp e = t) (spec_activity_records (getAllPairs dm)))) \<and>
   set (recentActivity (getDeviceStatistics now dm)) \<subseteq>
     set (spec_activity_records (getAllPairs dm)) \<and>
   activePairs (getDeviceStatistics now dm) =
     length (filter (spec_recently_active now) (getAllPairs dm))"
proof -
  let ?recs = "spec_activity_records (getAllPairs dm)"
  let ?L = "orderBy_timestamp_desc ?recs"
  have acc: "fold (stats_step now) (Map_values (devicePairs dm)) (0, []) =
      (length (filter (spec_recently_active now) (getAllPairs dm)), ?recs)"
    by (simp add: fold_stats_step getAllPairs_def)
  have recent: "recentActivity (getDeviceStatistics now dm) = take 10 ?L"
    by (simp add: getDeviceStatistics_def Let_def acc)
  have active: "activePairs (getDeviceStatistics now dm) =
      length (filter (spec_recently_active now) (getAllPairs dm))"
    by (simp add: getDeviceStatistics_def Let_def acc)
  have len: "length (recentActivity (getDeviceStatistics now dm)) \<le> 10"
    by (simp add: recent)
  have sortedL: "sorted_wrt (\<lambda>a b. entry_timestamp b \<le> entry_timestamp a) ?L"
    by (rule orderBy_timestamp_desc_sorted)
  have sorted10: "sorted_wrt (\<lambda>a b. entry_timestamp b \<le> entry_timestamp a)
      (recentActivity (getDeviceStatistics now dm))"
    unfolding recent using sortedL by (rule sorted_wrt_take)
  have stable: "\<forall>t. filter (\<lambda>e. entry_timestamp e = t) ?L =
      filter (\<lambda>e. entry_timestamp e = t) ?recs"
    by (simp add: orderBy_timestamp_desc_stable)
  have "set (take 10 ?L) \<subseteq> set ?L"
    by (rule set_take_subset)
  then have sub: "set (recentActivity (getDeviceStatistics now dm)) \<subseteq> set ?recs"
    by (simp add: recent orderBy_timestamp_desc_def)
  from len sorted10 recent sortedL stable sub active show ?thesis
    by blast
qed

theorem statistics_recent_and_active_witness:
  "getDeviceStatistics 1700000450000 four_pairs =
     \<lparr>totalPairs = 4, enabledPairs = 3, activePairs = 1,
      recentActivity =
        [\<lparr>pairName = Some ''stern'', entry_timestamp = 1700000400000,
          entry_type = ''playback''\<rparr>,
         \<lparr>pairName = Some ''deck'', entry_timestamp = 1700000000000, entry_type = ''volume''\<rparr>,
         \<lparr>pairName = Some ''bow'', entry_timestamp = 1700000000000, entry_type = ''track''\<rparr>]\<rparr> \<and>
   length (recentActivity (getDeviceStatistics 1700000450000 four_pairs)) \<le> 10 \<and>
   length (filter (spec_recently_active 1700000450000) (getAllPairs four_pairs)) = 1"
proof -
  have ev: "getDeviceStatistics 1700000450000 four_pairs =
     \<lparr>totalPairs = 4, enabledPairs = 3, activePairs = 1,
      recentActivity =
        [\<lparr>pairName = Some ''stern'', entry_timestamp = 1700000400000,
          entry_type = ''playback''\<rparr>,
         \<lparr>pairName = Some ''deck'', entry_timestamp = 1700000000000, entry_type = ''volume''\<rparr>,
         \<lparr>pairName = Some ''bow'', entry_timestamp = 1700000000000, entry_type = ''track''\<rparr>]\<rparr>"
    by (simp add: getDeviceStatistics_def four_pairs_def Map_values_def getEnabledPairs_def
        stats_step_def orderBy_timestamp_desc_def salon_def deck_def bow_def stern_def)
  from statistics_recent_and_active [of 1700000450000 four_pairs]
  have "length (recentActivity (getDeviceStatistics 1700000450000 four_pairs)) \<le> 10"
    and "activePairs (getDeviceStatistics 1700000450000 four_pairs) =
         length (filter (spec_recently_active 1700000450000) (getAllPairs four_pairs))"
    by blast+
  with ev show ?thesis by simp
qed

section \<open>Adding under a name that is already stored\<close>

text \<open>
  C10, as stated: adding a pair whose name already exists raises no error. When the
  configuration carries no \<open>fusionInput\<close>, \<^verbatim>\<open>addDevicePair\<close> throws a TypeError, for a name
  that exists as for any other.
\<close>

theorem add_existing_name_without_input_counterexample:
  "cfg_name (salon_again\<lparr>cfg_fusionInput := None\<rparr>) \<in> fst ` set (devicePairs salon_only) \<and>
   addDevicePair toLowerCase_ascii (salon_again\<lparr>cfg_fusionInput := None\<rparr>) salon_only =
     Inl TypeError"
  by (simp add: addDevicePair_def salon_again_def salon_only_def)

text \<open>
  C10, amended. When the configuration's name is already a key of the registry and the
  configuration carries a \<open>fusionInput\<close> string, \<^verbatim>\<open>addDevicePair\<close> raises no error; the
  registry keeps its keys, their order and its size; the new pair, built from the
  configuration with its input selector lower-cased and its runtime fields fresh, is stored
  under the old key; nothing is emitted for the displaced pair, and exactly one
  devicePairReady event is emitted for the new pair when it is enabled, which it is unless
  the configuration says \<open>enabled: false\<close>. When the configuration carries no
  \<open>fusionInput\<close>, \<^verbatim>\<open>addDevicePair\<close> throws a TypeError and nothing is stored or emitted.
\<close>

theorem add_existing_name_replaces:
  assumes "cfg_name config \<in> fst ` set (devicePairs dm)"
  shows "(cfg_fusionInput config = None \<longrightarrow>
            addDevicePair toLowerCase config dm = Inl TypeError) \<and>
         (\<forall>fi. cfg_fusionInput config = Some fi \<longrightarrow>
            (\<exists>dm' p. addDevicePair toLowerCase config dm = Inr dm' \<and>
               map fst (devicePairs dm') = map fst (devicePairs dm) \<and>
               length (devicePairs dm') = length (devicePairs dm) \<and>
               Map_get (devicePairs dm') (cfg_name config) = Some p \<and>
               name p = cfg_name config \<and>
               sonosDevice p = cfg_sonosDevice config \<and>
               fusionDevice p = cfg_fusionDevice config \<and>
               fusionInput p = toLowerCase fi \<and>
               volumeSync p = (cfg_volumeSync config \<noteq> Some False) \<and>
               enabled p = (cfg_enabled config \<noteq> Some False) \<and>
               lastActivity p = None \<and>
               status p = ''ready'' \<and>
               emitted dm' = emitted dm @ (if enabled p then [DevicePairReady p] else []) \<and>
               errors dm' = errors dm))"
proof (intro conjI allI impI)
  assume "cfg_fusionInput config = None"
  then show "addDevicePair toLowerCase config dm = Inl TypeError"
    by (simp add: addDevicePair_def)
next
  fix fi
  assume input: "cfg_fusionInput config = Some fi"
  define p where "p = \<lparr>name = cfg_name config,
                    sonosDevice = cfg_sonosDevice config,
                    fusionDevice = cfg_fusionDevice config,
                    fusionInput = toLowerCase fi,
                    volumeSync = (cfg_volumeSync config \<noteq> Some False),
                    enabled = (cfg_enabled config \<noteq> Some False),
                    lastActivity = None,
                    status = ''ready''\<rparr>"
  define dm1 where "dm1 = dm\<lparr>devicePairs := Map_set (cfg_name config) p (devicePairs dm)\<rparr>"
  define dm' where "dm' = (if enabled p then emit (DevicePairReady p) dm1 else dm1)"
  have r: "addDevicePair toLowerCase config dm = Inr dm'"
    using input by (simp add: addDevicePair_def Let_def p_def dm1_def dm'_def)
  have pairs: "devicePairs dm' = Map_set (cfg_name config) p (devicePairs dm)"
    by (simp add: dm'_def dm1_def emit_def)
  have keys: "map fst (devicePairs dm') = map fst (devicePairs dm)"
    using assms by (simp add: pairs keys_Map_set_present)
  have len: "length (devicePairs dm') = length (devicePairs dm)"
    using keys by (metis length_map)
  have get: "Map_get (devicePairs dm') (cfg_name config) = Some p"
    by (simp add: pairs Map_get_Map_set_same)
  have ev: "emitted dm' = emitted dm @ (if enabled p then [DevicePairReady p] else [])"
    by (simp add: dm'_def dm1_def emit_def)
  have er: "errors dm' = errors dm"
    by (simp add: dm'_def dm1_def emit_def)
  have fields: "name p = cfg_name config" "sonosDevice p = cfg_sonosDevice config"
    "fusionDevice p = cfg_fusionDevice config" "fusionInput p = toLowerCase fi"
    "volumeSync p = (cfg_volumeSync config \<noteq> Some False)"
    "enabled p = (cfg_enabled config \<noteq> Some False)"
    "lastActivity p = None" "status p = ''ready''"
    by (simp_all add: p_def)
  from r keys len get ev er fields
  show "\<exists>dm' p. addDevicePair toLowerCase config dm = Inr dm' \<and>
               map fst (devicePairs dm') = map fst (devicePairs dm) \<and>
               length (devicePairs dm') = length (devicePairs dm) \<and>
               Map_get (devicePairs dm') (cfg_name config) = Some p \<and>
               name p = cfg_name config \<and>
               sonosDevice p = cfg_sonosDevice config \<and>
               fusionDevice p = cfg_fusionDevice config \<and>
               fusionInput p = toLowerCase fi \<and>
               volumeSync p = (cfg_volumeSync config \<noteq> Some False) \<and>
               enabled p = (cfg_enabled config \<noteq> Some False) \<and>
               lastActivity p = None \<and>
               status p = ''ready'' \<and>
               emitted dm' = emitted dm @ (if enabled p then [DevicePairReady p] else []) \<and>
               errors dm' = errors dm"
    by blast
qed

theorem add_existing_name_replaces_witness:
  "cfg_name salon_again \<in> fst ` set (devicePairs salon_only) \<and>
   cfg_fusionInput salon_again = Some ''USB'' \<and>
   (\<exists>dm' p. addDevicePair toLowerCase_ascii salon_again salon_only = Inr dm' \<and>
      map fst (devicePairs dm') = [Some ''salon''] \<and>
      length (devicePairs dm') = 1 \<and>
      Map_get (devicePairs dm') (Some ''salon'') = Some p \<and>
      sonosDevice p = Some ''10.0.0.6:1400'' \<and>
      fusionInput p = ''usb'' \<and>
      emitted dm' = [DevicePairReady p]) \<and>
   cfg_name (salon_again\<lparr>cfg_fusionInput := None\<rparr>) \<in> fst ` set (devicePairs salon_only) \<and>
   addDevicePair toLowerCase_ascii (salon_again\<lparr>cfg_fusionInput := None\<rparr>) salon_only =
     Inl TypeError"
proof -
  have k: "cfg_name salon_again \<in> fst ` set (devicePairs salon_only)"
    by (simp add: salon_again_def salon_only_def)
  have f: "cfg_fusionInput salon_again = Some ''USB''"
    by (simp add: salon_again_def)
  have low: "toLowerCase_ascii ''USB'' = ''usb''"
    by (simp add: toLowerCase_ascii_def toLowerCase_char_def)
  from add_existing_name_replaces [OF k, of toLowerCase_ascii] f
  obtain dm' p where r: "addDevicePair toLowerCase_ascii salon_again salon_only = Inr dm'"
    and ks: "map fst (devicePairs dm') = map fst (devicePairs salon_only)"
    and len: "length (devicePairs dm') = length (devicePairs salon_only)"
    and g: "Map_get (devicePairs dm') (cfg_name salon_again) = Some p"
    and s: "sonosDevice p = cfg_sonosDevice salon_again"
    and i: "fusionInput p = toLowerCase_ascii ''USB''"
    and en: "enabled p = (cfg_enabled salon_again \<noteq> Some False)"
    and ev: "emitted dm' = emitted salon_only @ (if enabled p then [DevicePairReady p] else [])"
    by blast
  have "map fst (devicePairs dm') = [Some ''salon'']"
    using ks by (simp add: salon_only_def)
  moreover have "length (devicePairs dm') = 1"
    using len by (simp add: salon_only_def)
  moreover have "Map_get (devicePairs dm') (Some ''salon'') = Some p"
    using g by (simp add: salon_again_def)
  moreover have "sonosDevice p = Some ''10.0.0.6:1400''"
    using s by (simp add: salon_again_def)
  moreover have "fusionInput p = ''usb''"
    using i low by simp
  moreover have "emitted dm' = [DevicePairReady p]"
    using ev en by (simp add: salon_again_def salon_only_def)
  ultimately have first: "\<exists>dm' p. addDevicePair toLowerCase_ascii salon_again salon_only = Inr dm' \<and>
      map fst (devicePairs dm') = [Some ''salon''] \<and>
      length (devicePairs dm') = 1 \<and>
      Map_get (devicePairs dm') (Some ''salon'') = Some p \<and>
      sonosDevice p = Some ''10.0.0.6:1400'' \<and>
      fusionInput p = ''usb'' \<and>
      emitted dm' = [DevicePairReady p]"
    using r by auto
  have k2: "cfg_name (salon_again\<lparr>cfg_fusionInput := None\<rparr>) \<in> fst ` set (devicePairs salon_only)"
    by (simp add: salon_again_def salon_only_def)
  have n2: "cfg_fusionInput (salon_again\<lparr>cfg_fusionInput := None\<rparr>) = None"
    by simp
  from add_existing_name_replaces [OF k2, of toLowerCase_ascii] n2
  have second: "addDevicePair toLowerCase_ascii (salon_again\<lparr>cfg_fusionInput := None\<rparr>)
      salon_only = Inl TypeError"
    by blast
  from k f first k2 second show ?thesis by simp
qed

end
